theory Spec2Isabelle
  imports
    Complex_Main
    "HOL-Library.Char_ord"
    "HOL-Library.List_Lexorder"
    "HOL-Library.Product_Lexorder"
begin

section \<open>Expense tracker: a shallow embedding of \<^verbatim>\<open>remote_mcp_server.py\<close>\<close>

text \<open>
  Conventions of the embedding.
  \<^item> Python \<^verbatim>\<open>str\<close> is \<^typ>\<open>string\<close>; SQLite compares \<^verbatim>\<open>TEXT\<close> values bytewise
    (collation BINARY), which is the lexicographic order on \<^typ>\<open>string\<close>.
  \<^item> Python \<^verbatim>\<open>float\<close> and SQLite \<^verbatim>\<open>REAL\<close> are idealised as \<^typ>\<open>real\<close>: the
    comparisons and sums of the code are kept, binary rounding error is not modelled.
  \<^item> An exception raised inside a tool is a value of \<open>py_exn\<close>; every tool catches it
    and answers with an error response.
  \<^item> The standard library's \<^verbatim>\<open>datetime.strptime\<close> and the file
    \<^verbatim>\<open>categories.json\<close> are not part of the program text; they are the two fields
    of the environment record \<open>env\<close> which every operation takes.
\<close>

subsection \<open>Python primitives used by the program\<close>

datatype py_exn = ZeroDivisionError | ValueError

definition py_truediv :: "real \<Rightarrow> real \<Rightarrow> py_exn + real" where
  "py_truediv a b = (if b = 0 then Inl ZeroDivisionError else Inr (a / b))"

definition is_digit :: "char \<Rightarrow> bool" where
  "is_digit c = (CHR ''0'' \<le> c \<and> c \<le> CHR ''9'')"

definition digit_val :: "char \<Rightarrow> int" where
  "digit_val c = int (of_char c) - 48"

text \<open>\<^verbatim>\<open>int(s)\<close> on a string of decimal digits; any other string raises ValueError here
  (the program only applies it to the first four characters of a month key).\<close>

definition py_int :: "string \<Rightarrow> py_exn + int" where
  "py_int s = (if s \<noteq> [] \<and> list_all is_digit s
               then Inr (foldl (\<lambda>a c. 10 * a + digit_val c) 0 s)
               else Inl ValueError)"

definition endswith :: "string \<Rightarrow> string \<Rightarrow> bool" where
  "endswith s suf = (length suf \<le> length s \<and> drop (length s - length suf) s = suf)"

text \<open>\<^verbatim>\<open>s.endswith((a, b, ...))\<close> with a tuple of suffixes.\<close>

definition endswith_any :: "string \<Rightarrow> string list \<Rightarrow> bool" where
  "endswith_any s sufs = list_ex (endswith s) sufs"

text \<open>\<^verbatim>\<open>round(x, n)\<close>: round half to even at \<open>n\<close> decimals.\<close>

definition round_half_even :: "real \<Rightarrow> int" where
  "round_half_even x =
     (let f = \<lfloor>x\<rfloor>; d = x - of_int f
      in if d < 1 / 2 then f
         else if 1 / 2 < d then f + 1
         else if even f then f else f + 1)"

definition py_round :: "real \<Rightarrow> nat \<Rightarrow> real" where
  "py_round x n = of_int (round_half_even (x * 10 ^ n)) / 10 ^ n"

subsection \<open>Environment: the date parser and the taxonomy file\<close>

record env =
  strptime :: "string \<Rightarrow> string \<Rightarrow> bool"
    \<comment> \<open>\<open>strptime e fmt s\<close>: \<^verbatim>\<open>datetime.strptime(s, fmt)\<close> returns without ValueError\<close>
  categories :: "string \<rightharpoonup> string list"
    \<comment> \<open>the result of \<^verbatim>\<open>load_categories()\<close>; the empty map when the file cannot be read\<close>

definition validate_date :: "env \<Rightarrow> string \<Rightarrow> bool" where
  "validate_date e date_str = strptime e ''%Y-%m-%d'' date_str"

definition validate_amount :: "real \<Rightarrow> bool" where
  "validate_amount amount = (amount > 0)"

datatype error =
    Invalid_date_format
  | Amount_not_positive
  | Invalid_category string
  | Invalid_subcategory string string
  | Expense_not_found int
  | No_expenses_with_ids
  | No_expenses_to_delete
  | No_expenses_matching
  | No_deletion_criteria
  | No_fields_to_update
  | Monthly_limit_not_positive
  | Threshold_out_of_range
  | No_budget_for string
  | Invalid_month_format
  | Invalid_start_date
  | Invalid_end_date
  | Invalid_frequency
  | Recurring_not_found int
  | Failed py_exn

text \<open>\<^verbatim>\<open>validate_category\<close> returns \<^verbatim>\<open>{"valid": True}\<close> (here \<open>None\<close>) or
  \<^verbatim>\<open>{"valid": False, "error": ...}\<close> (here \<open>Some\<close> of the error).\<close>

definition validate_category :: "env \<Rightarrow> string \<Rightarrow> string \<Rightarrow> error option" where
  "validate_category e category subcategory =
     (case categories e category of
        None \<Rightarrow> Some (Invalid_category category)
      | Some subs \<Rightarrow>
          if subcategory \<noteq> [] \<and> subcategory \<notin> set subs
          then Some (Invalid_subcategory subcategory category)
          else None)"

subsection \<open>Budget threshold computation\<close>

datatype alert_level = WARNING | CRITICAL

record budget_alert =
  alert_level :: alert_level
  alert_category :: string
  alert_spent :: real
  alert_limit :: real
  alert_remaining :: real
  alert_percentage :: real

text \<open>\<^verbatim>\<open>percentage = (spent / limit) * 100 if limit > 0 else 0\<close>\<close>

definition budget_percentage :: "real \<Rightarrow> real \<Rightarrow> py_exn + real" where
  "budget_percentage spent limit =
     (if limit > 0
      then (case py_truediv spent limit of Inl x \<Rightarrow> Inl x | Inr q \<Rightarrow> Inr (q * 100))
      else Inr 0)"

definition make_alert :: "alert_level \<Rightarrow> string \<Rightarrow> real \<Rightarrow> real \<Rightarrow> real \<Rightarrow> budget_alert" where
  "make_alert lvl category spent limit percentage =
     \<lparr> alert_level = lvl, alert_category = category,
       alert_spent = py_round spent 2, alert_limit = py_round limit 2,
       alert_remaining = py_round (limit - spent) 2,
       alert_percentage = py_round percentage 1 \<rparr>"

text \<open>Lines 173 to 196 of \<^verbatim>\<open>add_expense\<close> (repeated at 874 to 897 in
  \<^verbatim>\<open>add_recurring_expense\<close>): the alert, or \<open>None\<close> when no threshold is reached.\<close>

definition check_budget :: "string \<Rightarrow> real \<Rightarrow> real \<Rightarrow> real \<Rightarrow> py_exn + budget_alert option" where
  "check_budget category limit threshold spent =
     (case budget_percentage spent limit of
        Inl x \<Rightarrow> Inl x
      | Inr percentage \<Rightarrow>
          Inr (if percentage \<ge> 100
               then Some (make_alert CRITICAL category spent limit percentage)
               else if percentage \<ge> threshold * 100
               then Some (make_alert WARNING category spent limit percentage)
               else None))"

text \<open>Lines 711 to 718 of \<^verbatim>\<open>get_budget_status\<close>: the \<^verbatim>\<open>alert_status\<close> string.\<close>

definition alert_status_of :: "real \<Rightarrow> real \<Rightarrow> real \<Rightarrow> py_exn + string" where
  "alert_status_of limit threshold spent =
     (case budget_percentage spent limit of
        Inl x \<Rightarrow> Inl x
      | Inr percentage \<Rightarrow>
          Inr (if percentage \<ge> 100 then ''exceeded''
               else if percentage \<ge> threshold * 100 then ''warning''
               else ''ok''))"

subsection \<open>Month window\<close>

text \<open>The month window is written out three times in the program; each copy is
  embedded from its own lines. The result is \<open>(start_date, end_date)\<close>.\<close>

definition add_expense_month_window :: "string \<Rightarrow> py_exn + string \<times> string" where
  "add_expense_month_window year_month =
     (let start_date = year_month @ ''-01'' in
      if endswith year_month ''02'' then
        (case py_int (take 4 year_month) of
           Inl x \<Rightarrow> Inl x
         | Inr year \<Rightarrow>
             let last_day = (if year mod 4 = 0 \<and> (year mod 100 \<noteq> 0 \<or> year mod 400 = 0)
                             then ''29'' else ''28'')
             in Inr (start_date, year_month @ ''-'' @ last_day))
      else if endswith_any year_month [''04'', ''06'', ''09'', ''11'']
      then Inr (start_date, year_month @ ''-'' @ ''30'')
      else Inr (start_date, year_month @ ''-'' @ ''31''))"

definition get_budget_status_month_window :: "string \<Rightarrow> py_exn + string \<times> string" where
  "get_budget_status_month_window year_month =
     (let start_date = year_month @ ''-01'' in
      if endswith year_month ''02'' then
        (case py_int (take 4 year_month) of
           Inl x \<Rightarrow> Inl x
         | Inr year \<Rightarrow>
             let last_day = (if year mod 4 = 0 \<and> (year mod 100 \<noteq> 0 \<or> year mod 400 = 0)
                             then ''29'' else ''28'')
             in Inr (start_date, year_month @ ''-'' @ last_day))
      else if endswith_any year_month [''04'', ''06'', ''09'', ''11'']
      then Inr (start_date, year_month @ ''-'' @ ''30'')
      else Inr (start_date, year_month @ ''-'' @ ''31''))"

definition add_recurring_month_window :: "string \<Rightarrow> py_exn + string \<times> string" where
  "add_recurring_month_window year_month =
     (let month_start = year_month @ ''-01'' in
      if endswith year_month ''02'' then
        (case py_int (take 4 year_month) of
           Inl x \<Rightarrow> Inl x
         | Inr year \<Rightarrow>
             let last_day = (if year mod 4 = 0 \<and> (year mod 100 \<noteq> 0 \<or> year mod 400 = 0)
                             then ''29'' else ''28'')
             in Inr (month_start, year_month @ ''-'' @ last_day))
      else if endswith_any year_month [''04'', ''06'', ''09'', ''11'']
      then Inr (month_start, year_month @ ''-'' @ ''30'')
      else Inr (month_start, year_month @ ''-'' @ ''31''))"

text \<open>A \<^verbatim>\<open>YYYY-MM\<close> key, written from a year below 10000 and a month number: four
  decimal digits, a hyphen, two decimal digits.\<close>

definition digit_char :: "nat \<Rightarrow> char" where
  "digit_char n = ''0123456789'' ! n"

definition year_month_key :: "nat \<Rightarrow> nat \<Rightarrow> string" where
  "year_month_key y m =
     [digit_char (y div 1000), digit_char (y div 100 mod 10),
      digit_char (y div 10 mod 10), digit_char (y mod 10),
      CHR ''-'', digit_char (m div 10), digit_char (m mod 10)]"

definition leap_year :: "nat \<Rightarrow> bool" where
  "leap_year y = (4 dvd y \<and> (\<not> 100 dvd y \<or> 400 dvd y))"

definition last_day_of :: "nat \<Rightarrow> nat \<Rightarrow> string" where
  "last_day_of y m =
     (if m = 2 then (if leap_year y then ''29'' else ''28'')
      else if m \<in> {4, 6, 9, 11} then ''30'' else ''31'')"


text \<open>A zero-padded \<^verbatim>\<open>YYYY-MM-DD\<close> date, written from its three numbers.\<close>

definition iso_date :: "nat \<Rightarrow> nat \<Rightarrow> nat \<Rightarrow> string" where
  "iso_date y m d =
     year_month_key y m @ [CHR ''-'', digit_char (d div 10), digit_char (d mod 10)]"

subsection \<open>The database\<close>

text \<open>The three tables of \<^verbatim>\<open>init_db\<close>. A table is the list of its rows in rowid order.
  The column \<^verbatim>\<open>created_at\<close> is never read and is left out. \<open>expenses_seq\<close> and
  \<open>recurring_seq\<close> are the \<^verbatim>\<open>sqlite_sequence\<close> entries that \<^verbatim>\<open>AUTOINCREMENT\<close>
  maintains: the largest rowid ever given out in the table.\<close>

record expense =
  exp_id :: int
  exp_date :: string
  exp_amount :: real
  exp_category :: string
  exp_subcategory :: string
  exp_note :: string

record budget =
  bud_category :: string
  bud_monthly_limit :: real
  bud_alert_threshold :: real

record recurring =
  rec_id :: int
  rec_amount :: real
  rec_category :: string
  rec_subcategory :: string
  rec_note :: string
  rec_frequency :: string
  rec_start_date :: string
  rec_end_date :: "string option"
  rec_last_applied :: "string option"
  rec_active :: int

record db =
  expenses :: "expense list"
  expenses_seq :: int
  budgets :: "budget list"
  recurring_expenses :: "recurring list"
  recurring_seq :: int

definition init_db :: db where
  "init_db = \<lparr> expenses = [], expenses_seq = 0, budgets = [],
               recurring_expenses = [], recurring_seq = 0 \<rparr>"

text \<open>The rowid of an inserted row (\<^verbatim>\<open>cur.lastrowid\<close>) in an \<^verbatim>\<open>AUTOINCREMENT\<close>
  table: one more than the largest rowid that ever existed in the table.\<close>

definition next_rowid :: "int \<Rightarrow> int list \<Rightarrow> int" where
  "next_rowid seq ids = max seq (fold max ids 0) + 1"

text \<open>\<^verbatim>\<open>date BETWEEN ? AND ?\<close> on \<^verbatim>\<open>TEXT\<close> values.\<close>

definition between :: "string \<Rightarrow> string \<Rightarrow> string \<Rightarrow> bool" where
  "between d lo hi = (lo \<le> d \<and> d \<le> hi)"

text \<open>\<^verbatim>\<open>SELECT COALESCE(SUM(amount), 0) FROM expenses WHERE category = ? AND date BETWEEN ? AND ?\<close>\<close>

definition month_rows :: "db \<Rightarrow> string \<Rightarrow> string \<Rightarrow> string \<Rightarrow> expense list" where
  "month_rows s category start_date end_date =
     filter (\<lambda>r. exp_category r = category \<and> between (exp_date r) start_date end_date)
       (expenses s)"

definition month_spent :: "db \<Rightarrow> string \<Rightarrow> string \<Rightarrow> string \<Rightarrow> real" where
  "month_spent s category start_date end_date =
     sum_list (map exp_amount (month_rows s category start_date end_date))"

text \<open>\<^verbatim>\<open>SELECT monthly_limit, alert_threshold FROM budgets WHERE category = ?\<close>, then
  \<^verbatim>\<open>fetchone()\<close>.\<close>

definition budget_row_of :: "db \<Rightarrow> string \<Rightarrow> budget option" where
  "budget_row_of s category = find (\<lambda>b. bud_category b = category) (budgets s)"

subsection \<open>Responses\<close>

text \<open>The dictionary returned with \<^verbatim>\<open>"status": "ok"\<close> by the mutating tools; a key
  that the tool does not set is \<open>None\<close> (\<open>False\<close> for the \<^verbatim>\<open>"warning"\<close> key). The
  texts of \<^verbatim>\<open>"message"\<close> are left out; an error response is identified by the
  constructor of \<open>error\<close> that stands for its message.\<close>

record ok_response =
  ok_id :: "int option"
  ok_deleted_count :: "nat option"
  ok_budget_alert :: "budget_alert option"
  ok_recurring_id :: "int option"
  ok_first_expense_id :: "int option"
  ok_warning :: bool

datatype response = Status_error error | Status_ok ok_response

definition ok_plain :: ok_response where
  "ok_plain = \<lparr> ok_id = None, ok_deleted_count = None, ok_budget_alert = None,
                ok_recurring_id = None, ok_first_expense_id = None, ok_warning = False \<rparr>"

subsection \<open>\<^verbatim>\<open>add_expense\<close>\<close>

definition add_expense ::
  "env \<Rightarrow> db \<Rightarrow> string \<Rightarrow> real \<Rightarrow> string \<Rightarrow> string \<Rightarrow> string \<Rightarrow> response \<times> db" where
  "add_expense e s date amount category subcategory note =
     (if \<not> validate_date e date then (Status_error Invalid_date_format, s)
      else if \<not> validate_amount amount then (Status_error Amount_not_positive, s)
      else case validate_category e category subcategory of
        Some err \<Rightarrow> (Status_error err, s)
      | None \<Rightarrow>
          let expense_id = next_rowid (expenses_seq s) (map exp_id (expenses s));
              s' = s\<lparr> expenses := expenses s @
                         [\<lparr> exp_id = expense_id, exp_date = date, exp_amount = amount,
                            exp_category = category, exp_subcategory = subcategory,
                            exp_note = note \<rparr>],
                       expenses_seq := expense_id \<rparr>;
              year_month = take 7 date
          in case budget_row_of s' category of
               None \<Rightarrow> (Status_ok (ok_plain\<lparr> ok_id := Some expense_id \<rparr>), s')
             | Some budget_row \<Rightarrow>
                 (case add_expense_month_window year_month of
                    Inl x \<Rightarrow> (Status_error (Failed x), s')
                  | Inr (start_date, end_date) \<Rightarrow>
                      let spent = month_spent s' category start_date end_date
                      in case check_budget category (bud_monthly_limit budget_row)
                                (bud_alert_threshold budget_row) spent of
                           Inl x \<Rightarrow> (Status_error (Failed x), s')
                         | Inr budget_alert \<Rightarrow>
                             (Status_ok (ok_plain\<lparr> ok_id := Some expense_id,
                                                  ok_budget_alert := budget_alert \<rparr>), s')))"

subsection \<open>\<^verbatim>\<open>list_expenses\<close>\<close>




subsection \<open>\<^verbatim>\<open>delete_expense\<close>\<close>

text \<open>The entries of the list \<^verbatim>\<open>conditions\<close>, with their parameters.\<close>

datatype condition = Date_between string string | Category_is string

fun holds :: "condition \<Rightarrow> expense \<Rightarrow> bool" where
  "holds (Date_between lo hi) r = between (exp_date r) lo hi"
| "holds (Category_is c) r = (exp_category r = c)"

definition matches :: "condition list \<Rightarrow> expense \<Rightarrow> bool" where
  "matches conditions r = list_all (\<lambda>c. holds c r) conditions"

definition delete_expense ::
  "env \<Rightarrow> db \<Rightarrow> int option \<Rightarrow> int list option \<Rightarrow> string option \<Rightarrow> string option \<Rightarrow>
   string option \<Rightarrow> bool \<Rightarrow> response \<times> db" where
  "delete_expense e s id' ids start_date end_date category delete_all =
     (case id' of
        Some i \<Rightarrow>
          if \<not> list_ex (\<lambda>r. exp_id r = i) (expenses s)
          then (Status_error (Expense_not_found i), s)
          else (Status_ok (ok_plain\<lparr> ok_deleted_count := Some 1 \<rparr>),
                s\<lparr> expenses := filter (\<lambda>r. exp_id r \<noteq> i) (expenses s) \<rparr>)
      | None \<Rightarrow>
          if ids \<noteq> None \<and> length (the ids) > 0 then
            let count = length (filter (\<lambda>r. exp_id r \<in> set (the ids)) (expenses s))
            in if count = 0 then (Status_error No_expenses_with_ids, s)
               else (Status_ok (ok_plain\<lparr> ok_deleted_count := Some count \<rparr>),
                     s\<lparr> expenses := filter (\<lambda>r. exp_id r \<notin> set (the ids)) (expenses s) \<rparr>)
          else if start_date \<noteq> None \<and> end_date \<noteq> None
                  \<and> (\<not> validate_date e (the start_date) \<or> \<not> validate_date e (the end_date))
          then (Status_error Invalid_date_format, s)
          else
            let conditions =
                  (if start_date \<noteq> None \<and> end_date \<noteq> None
                   then [Date_between (the start_date) (the end_date)] else [])
                  @ (case category of None \<Rightarrow> [] | Some c \<Rightarrow> [Category_is c])
            in if delete_all \<and> conditions = [] then
                 let count = length (expenses s)
                 in if count = 0 then (Status_error No_expenses_to_delete, s)
                    else (Status_ok (ok_plain\<lparr> ok_deleted_count := Some count,
                                               ok_warning := True \<rparr>),
                          s\<lparr> expenses := [] \<rparr>)
               else if conditions \<noteq> [] then
                 let count = length (filter (matches conditions) (expenses s))
                 in if count = 0 then (Status_error No_expenses_matching, s)
                    else (Status_ok (ok_plain\<lparr> ok_deleted_count := Some count \<rparr>),
                          s\<lparr> expenses := filter (\<lambda>r. \<not> matches conditions r) (expenses s) \<rparr>)
               else (Status_error No_deletion_criteria, s))"

subsection \<open>\<^verbatim>\<open>update_expense\<close>\<close>

text \<open>The entries of the list \<^verbatim>\<open>updates\<close>, with their parameters: the assignments of
  the \<^verbatim>\<open>UPDATE ... SET\<close> statement that the tool builds.\<close>

datatype assignment =
    Set_date string | Set_amount real | Set_category string
  | Set_subcategory string | Set_note string

fun assign :: "assignment \<Rightarrow> expense \<Rightarrow> expense" where
  "assign (Set_date d) r = r\<lparr> exp_date := d \<rparr>"
| "assign (Set_amount a) r = r\<lparr> exp_amount := a \<rparr>"
| "assign (Set_category c) r = r\<lparr> exp_category := c \<rparr>"
| "assign (Set_subcategory sc) r = r\<lparr> exp_subcategory := sc \<rparr>"
| "assign (Set_note n) r = r\<lparr> exp_note := n \<rparr>"

text \<open>\<^verbatim>\<open>UPDATE expenses SET ... WHERE id = ?\<close>\<close>

definition run_update :: "assignment list \<Rightarrow> int \<Rightarrow> expense list \<Rightarrow> expense list" where
  "run_update updates i rows =
     map (\<lambda>r. if exp_id r = i then fold assign updates r else r) rows"

definition build_updates ::
  "string option \<Rightarrow> real option \<Rightarrow> string option \<Rightarrow> string option \<Rightarrow> string option \<Rightarrow>
   assignment list" where
  "build_updates date amount category subcategory note =
     (case date of None \<Rightarrow> [] | Some d \<Rightarrow> [Set_date d])
     @ (case amount of None \<Rightarrow> [] | Some a \<Rightarrow> [Set_amount a])
     @ (case category of None \<Rightarrow> [] | Some c \<Rightarrow> [Set_category c])
     @ (case subcategory of None \<Rightarrow> [] | Some sc \<Rightarrow> [Set_subcategory sc])
     @ (case note of None \<Rightarrow> [] | Some n \<Rightarrow> [Set_note n])"

text \<open>\<^verbatim>\<open>subcategory or ""\<close>\<close>

definition or_empty :: "string option \<Rightarrow> string" where
  "or_empty x = (case x of None \<Rightarrow> [] | Some v \<Rightarrow> v)"

definition update_expense ::
  "env \<Rightarrow> db \<Rightarrow> int \<Rightarrow> string option \<Rightarrow> real option \<Rightarrow> string option \<Rightarrow> string option \<Rightarrow>
   string option \<Rightarrow> response \<times> db" where
  "update_expense e s id' date amount category subcategory note =
     (if \<not> list_ex (\<lambda>r. exp_id r = id') (expenses s)
      then (Status_error (Expense_not_found id'), s)
      else if date \<noteq> None \<and> \<not> validate_date e (the date)
      then (Status_error Invalid_date_format, s)
      else if amount \<noteq> None \<and> \<not> validate_amount (the amount)
      then (Status_error Amount_not_positive, s)
      else if category \<noteq> None
              \<and> validate_category e (the category) (or_empty subcategory) \<noteq> None
      then (Status_error (the (validate_category e (the category) (or_empty subcategory))), s)
      else
        let updates = build_updates date amount category subcategory note
        in if updates = [] then (Status_error No_fields_to_update, s)
           else (Status_ok ok_plain,
                 s\<lparr> expenses := run_update updates id' (expenses s) \<rparr>))"


subsection \<open>\<^verbatim>\<open>get_category_breakdown\<close>\<close>











subsection \<open>Budgets\<close>

text \<open>\<^verbatim>\<open>INSERT OR REPLACE\<close> on the \<^verbatim>\<open>UNIQUE\<close> column \<^verbatim>\<open>category\<close>: the row of the
  category, if any, is deleted and the new row is appended.\<close>

definition set_budget :: "env \<Rightarrow> db \<Rightarrow> string \<Rightarrow> real \<Rightarrow> real \<Rightarrow> response \<times> db" where
  "set_budget e s category monthly_limit alert_threshold =
     (if \<not> validate_amount monthly_limit then (Status_error Monthly_limit_not_positive, s)
      else if \<not> (0 < alert_threshold \<and> alert_threshold \<le> 1)
      then (Status_error Threshold_out_of_range, s)
      else case validate_category e category [] of
        Some err \<Rightarrow> (Status_error err, s)
      | None \<Rightarrow>
          (Status_ok ok_plain,
           s\<lparr> budgets := filter (\<lambda>b. bud_category b \<noteq> category) (budgets s) @
                  [\<lparr> bud_category = category, bud_monthly_limit = monthly_limit,
                     bud_alert_threshold = alert_threshold \<rparr>] \<rparr>))"

definition delete_budget :: "db \<Rightarrow> string \<Rightarrow> response \<times> db" where
  "delete_budget s category =
     (if \<not> list_ex (\<lambda>b. bud_category b = category) (budgets s)
      then (Status_error (No_budget_for category), s)
      else (Status_ok ok_plain,
            s\<lparr> budgets := filter (\<lambda>b. bud_category b \<noteq> category) (budgets s) \<rparr>))"

record budget_status =
  st_category :: string
  st_limit :: real
  st_spent :: real
  st_remaining :: real
  st_percentage :: real
  st_alert_status :: string
  st_transaction_count :: nat

text \<open>The body of the loop over the budgets in \<^verbatim>\<open>get_budget_status\<close>.\<close>

definition budget_status_of :: "db \<Rightarrow> string \<Rightarrow> string \<Rightarrow> budget \<Rightarrow> py_exn + budget_status" where
  "budget_status_of s start_date end_date b =
     (let category = bud_category b; limit = bud_monthly_limit b;
          threshold = bud_alert_threshold b;
          spent = month_spent s category start_date end_date;
          count = length (month_rows s category start_date end_date)
      in case budget_percentage spent limit of
           Inl x \<Rightarrow> Inl x
         | Inr percentage \<Rightarrow>
             (case alert_status_of limit threshold spent of
                Inl x \<Rightarrow> Inl x
              | Inr alert_status \<Rightarrow>
                  Inr \<lparr> st_category = category, st_limit = py_round limit 2,
                        st_spent = py_round spent 2,
                        st_remaining = py_round (limit - spent) 2,
                        st_percentage = py_round percentage 1,
                        st_alert_status = alert_status,
                        st_transaction_count = count \<rparr>))"

fun status_list :: "db \<Rightarrow> string \<Rightarrow> string \<Rightarrow> budget list \<Rightarrow> py_exn + budget_status list" where
  "status_list s start_date end_date [] = Inr []"
| "status_list s start_date end_date (b # bs) =
     (case budget_status_of s start_date end_date b of
        Inl x \<Rightarrow> Inl x
      | Inr st \<Rightarrow> (case status_list s start_date end_date bs of
                     Inl x \<Rightarrow> Inl x
                   | Inr sts \<Rightarrow> Inr (st # sts)))"

definition get_budget_status :: "env \<Rightarrow> db \<Rightarrow> string \<Rightarrow> error + budget_status list" where
  "get_budget_status e s year_month =
     (if \<not> strptime e ''%Y-%m'' year_month then Inl Invalid_month_format
      else case get_budget_status_month_window year_month of
        Inl x \<Rightarrow> Inl (Failed x)
      | Inr (start_date, end_date) \<Rightarrow>
          if budgets s = [] then Inr []
          else (case status_list s start_date end_date (budgets s) of
                  Inl x \<Rightarrow> Inl (Failed x)
                | Inr sts \<Rightarrow> Inr sts))"

subsection \<open>Recurring expenses\<close>

definition recurring_note :: "string \<Rightarrow> string \<Rightarrow> string" where
  "recurring_note frequency note =
     (if note \<noteq> [] then ''[Recurring '' @ frequency @ ''] '' @ note
      else ''Recurring '' @ frequency @ '' expense'')"

definition add_recurring_expense ::
  "env \<Rightarrow> db \<Rightarrow> real \<Rightarrow> string \<Rightarrow> string \<Rightarrow> string \<Rightarrow> string \<Rightarrow> string \<Rightarrow> string option \<Rightarrow>
   response \<times> db" where
  "add_recurring_expense e s amount category frequency start_date subcategory note end_date =
     (if \<not> validate_amount amount then (Status_error Amount_not_positive, s)
      else if \<not> validate_date e start_date then (Status_error Invalid_start_date, s)
      else if or_empty end_date \<noteq> [] \<and> \<not> validate_date e (or_empty end_date)
      then (Status_error Invalid_end_date, s)
      else if frequency \<notin> set [''daily'', ''weekly'', ''monthly'', ''yearly'']
      then (Status_error Invalid_frequency, s)
      else case validate_category e category subcategory of
        Some err \<Rightarrow> (Status_error err, s)
      | None \<Rightarrow>
          let recurring_id = next_rowid (recurring_seq s) (map rec_id (recurring_expenses s));
              expense_id = next_rowid (expenses_seq s) (map exp_id (expenses s));
              s' = s\<lparr> recurring_expenses := recurring_expenses s @
                         [\<lparr> rec_id = recurring_id, rec_amount = amount,
                            rec_category = category, rec_subcategory = subcategory,
                            rec_note = note, rec_frequency = frequency,
                            rec_start_date = start_date, rec_end_date = end_date,
                            rec_last_applied = Some start_date, rec_active = 1 \<rparr>],
                       recurring_seq := recurring_id,
                       expenses := expenses s @
                         [\<lparr> exp_id = expense_id, exp_date = start_date, exp_amount = amount,
                            exp_category = category, exp_subcategory = subcategory,
                            exp_note = recurring_note frequency note \<rparr>],
                       expenses_seq := expense_id \<rparr>;
              year_month = take 7 start_date;
              ok = ok_plain\<lparr> ok_recurring_id := Some recurring_id,
                              ok_first_expense_id := Some expense_id \<rparr>
          in case budget_row_of s' category of
               None \<Rightarrow> (Status_ok ok, s')
             | Some budget_row \<Rightarrow>
                 (case add_recurring_month_window year_month of
                    Inl x \<Rightarrow> (Status_error (Failed x), s')
                  | Inr (month_start, month_end) \<Rightarrow>
                      let spent = month_spent s' category month_start month_end
                      in case check_budget category (bud_monthly_limit budget_row)
                                (bud_alert_threshold budget_row) spent of
                           Inl x \<Rightarrow> (Status_error (Failed x), s')
                         | Inr budget_alert \<Rightarrow>
                             (Status_ok (ok\<lparr> ok_budget_alert := budget_alert \<rparr>), s')))"

text \<open>\<^verbatim>\<open>ORDER BY id DESC\<close>\<close>

definition list_recurring_expenses :: "db \<Rightarrow> bool \<Rightarrow> recurring list" where
  "list_recurring_expenses s active_only =
     rev (sort_key rec_id
            (if active_only then filter (\<lambda>r. rec_active r = 1) (recurring_expenses s)
             else recurring_expenses s))"

definition deactivate_recurring_expense :: "db \<Rightarrow> int \<Rightarrow> response \<times> db" where
  "deactivate_recurring_expense s id' =
     (if \<not> list_ex (\<lambda>r. rec_id r = id') (recurring_expenses s)
      then (Status_error (Recurring_not_found id'), s)
      else (Status_ok ok_plain,
            s\<lparr> recurring_expenses :=
                  map (\<lambda>r. if rec_id r = id' then r\<lparr> rec_active := 0 \<rparr> else r)
                    (recurring_expenses s) \<rparr>))"

subsection \<open>An environment for the examples\<close>

text \<open>A date parser and a taxonomy to run the operations on concrete inputs.
  \<open>example_strptime\<close> follows the regular expressions that CPython's
  \<^verbatim>\<open>_strptime\<close> builds for \<^verbatim>\<open>%Y\<close>, \<^verbatim>\<open>%m\<close> and \<^verbatim>\<open>%d\<close>, on ASCII input:
  four digits for the year (at least 1), one or two digits for the month (1 to 12) and
  for the day (1 to the length of the month; a single digit may follow a space).\<close>

fun split_on :: "char \<Rightarrow> string \<Rightarrow> string list" where
  "split_on c [] = [[]]"
| "split_on c (x # xs) =
     (if x = c then [] # split_on c xs
      else (case split_on c xs of [] \<Rightarrow> [[x]] | w # ws \<Rightarrow> (x # w) # ws))"

definition field_value :: "string \<Rightarrow> int" where
  "field_value f = (case py_int f of Inl x \<Rightarrow> 0 | Inr v \<Rightarrow> v)"

definition year_field :: "string \<Rightarrow> bool" where
  "year_field f = (length f = 4 \<and> list_all is_digit f \<and> 1 \<le> field_value f)"

definition month_field :: "string \<Rightarrow> bool" where
  "month_field f =
     (1 \<le> length f \<and> length f \<le> 2 \<and> list_all is_digit f
      \<and> 1 \<le> field_value f \<and> field_value f \<le> 12)"

definition day_value :: "string \<Rightarrow> int" where
  "day_value f = field_value (if take 1 f = '' '' then drop 1 f else f)"

definition day_field :: "string \<Rightarrow> bool" where
  "day_field f =
     ((1 \<le> length f \<and> length f \<le> 2 \<and> list_all is_digit f \<and> 1 \<le> field_value f
         \<and> field_value f \<le> 31)
      \<or> (length f = 2 \<and> take 1 f = '' '' \<and> list_all is_digit (drop 1 f)
         \<and> 1 \<le> field_value (drop 1 f)))"

definition days_in_month :: "int \<Rightarrow> int \<Rightarrow> int" where
  "days_in_month y m =
     (if m = 2 then (if y mod 4 = 0 \<and> (y mod 100 \<noteq> 0 \<or> y mod 400 = 0) then 29 else 28)
      else if m \<in> {4, 6, 9, 11} then 30 else 31)"

definition example_strptime :: "string \<Rightarrow> string \<Rightarrow> bool" where
  "example_strptime fmt data =
     (if fmt = ''%Y-%m-%d'' then
        (case split_on CHR ''-'' data of
           [y, m, d] \<Rightarrow> year_field y \<and> month_field m \<and> day_field d
                        \<and> day_value d \<le> days_in_month (field_value y) (field_value m)
         | _ \<Rightarrow> False)
      else if fmt = ''%Y-%m'' then
        (case split_on CHR ''-'' data of
           [y, m] \<Rightarrow> year_field y \<and> month_field m
         | _ \<Rightarrow> False)
      else False)"

definition example_categories :: "string \<rightharpoonup> string list" where
  "example_categories =
     [''food'' \<mapsto> [''groceries'', ''dining''], ''housing'' \<mapsto> [''rent'']]"

definition example_env :: env where
  "example_env = \<lparr> strptime = example_strptime, categories = example_categories \<rparr>"


subsection \<open>A ledger for the examples\<close>

definition example_db :: db where
  "example_db =
     \<lparr> expenses =
         [\<lparr> exp_id = 5, exp_date = ''2026-01-10'', exp_amount = 10, exp_category = ''food'',
            exp_subcategory = ''groceries'', exp_note = ''milk'' \<rparr>,
          \<lparr> exp_id = 6, exp_date = ''2026-01-12'', exp_amount = 55, exp_category = ''food'',
            exp_subcategory = ''dining'', exp_note = [] \<rparr>],
       expenses_seq = 6,
       budgets = [\<lparr> bud_category = ''food'', bud_monthly_limit = 100,
                    bud_alert_threshold = 0.8 \<rparr>],
       recurring_expenses = [], recurring_seq = 0 \<rparr>"

subsection \<open>Auxiliary notions for the proofs about the breakdown\<close>





section \<open>Verified properties\<close>

subsection \<open>Budget verdicts\<close>

lemma budget_percentage_eq:
  "budget_percentage spent limit = Inr (if limit > 0 then spent / limit * 100 else 0)"
  by (simp add: budget_percentage_def py_truediv_def)



subsection \<open>Month windows\<close>

lemma below_ten: "n < 10 \<Longrightarrow> n \<in> {0, 1, 2, 3, 4, 5, 6, 7, 8, 9::nat}"
  by auto

lemma digit_val_digit_char: "n < 10 \<Longrightarrow> digit_val (digit_char n) = int n"
  by (drule below_ten) (auto simp: digit_val_def digit_char_def)

lemma is_digit_digit_char: "n < 10 \<Longrightarrow> is_digit (digit_char n)"
  by (drule below_ten) (auto simp: is_digit_def digit_char_def)

lemma decimal_digits:
  fixes y :: nat
  shows "y = 10 * (10 * (10 * (y div 1000) + y div 100 mod 10) + y div 10 mod 10) + y mod 10"
proof -
  have a: "y div 100 = y div 10 div 10" and b: "y div 1000 = y div 10 div 10 div 10"
    by (simp_all add: div_mult2_eq)
  show ?thesis unfolding a b by (simp only: mult_div_mod_eq)
qed

lemma py_int_key:
  assumes "y < 10000"
  shows "py_int (take 4 (year_month_key y m)) = Inr (int y)"
proof -
  have d: "y div 1000 < 10" "y div 100 mod 10 < 10" "y div 10 mod 10 < 10" "y mod 10 < 10"
    using assms by auto
  have "int y = int (10 * (10 * (10 * (y div 1000) + y div 100 mod 10) + y div 10 mod 10)
                     + y mod 10)"
    using decimal_digits[of y] by simp
  then have "int y = 10 * (10 * (10 * int (y div 1000) + int (y div 100 mod 10))
                           + int (y div 10 mod 10)) + int (y mod 10)"
    by simp
  then show ?thesis using d
    by (simp add: py_int_def year_month_key_def is_digit_digit_char digit_val_digit_char)
qed

lemma month_cases:
  "1 \<le> m \<Longrightarrow> m \<le> 12 \<Longrightarrow>
   m = 1 \<or> m = 2 \<or> m = 3 \<or> m = 4 \<or> m = 5 \<or> m = 6 \<or> m = 7 \<or> m = 8 \<or> m = 9 \<or> m = 10
   \<or> m = 11 \<or> m = (12::nat)"
  by arith

lemma key_suffix:
  assumes "1 \<le> m" "m \<le> 12"
  shows "endswith (year_month_key y m) ''02'' \<longleftrightarrow> m = 2"
    and "endswith_any (year_month_key y m) [''04'', ''06'', ''09'', ''11'']
           \<longleftrightarrow> m \<in> {4, 6, 9, 11}"
  using month_cases[OF assms]
  by (elim disjE; simp add: endswith_def endswith_any_def year_month_key_def digit_char_def)+

lemma leap_int:
  "leap_year y \<longleftrightarrow> (int y mod 4 = 0 \<and> (int y mod 100 \<noteq> 0 \<or> int y mod 400 = 0))"
  unfolding leap_year_def by presburger

lemma windows_agree:
  "add_recurring_month_window ym = add_expense_month_window ym"
  "get_budget_status_month_window ym = add_expense_month_window ym"
  by (simp_all add: add_recurring_month_window_def add_expense_month_window_def
        get_budget_status_month_window_def)

lemma add_expense_window_key:
  assumes "y < 10000" "1 \<le> m" "m \<le> 12"
  shows "add_expense_month_window (year_month_key y m)
           = Inr (year_month_key y m @ ''-01'', year_month_key y m @ ''-'' @ last_day_of y m)"
  unfolding add_expense_month_window_def
  by (simp add: key_suffix[OF assms(2,3)] py_int_key[OF assms(1)] leap_int last_day_of_def
        Let_def del: append.simps)

text \<open>
  Claim C2. For every \<^verbatim>\<open>YYYY-MM\<close> key (a year below 10000 and a month from 1 to 12, in
  four and two digits) the month window ends on day 29 in February of a leap year (year
  divisible by 4, and not by 100 unless by 400), 28 in any other February, 30 in April,
  June, September and November, 31 in the other months. The three copies of the rule,
  in \<^verbatim>\<open>add_expense\<close>, \<^verbatim>\<open>add_recurring_expense\<close> and \<^verbatim>\<open>get_budget_status\<close>, compute the same
  window on every string.
\<close>

theorem month_window_last_day:
  "(y < 10000 \<and> 1 \<le> m \<and> m \<le> 12 \<longrightarrow>
      add_expense_month_window (year_month_key y m)
        = Inr (year_month_key y m @ ''-01'', year_month_key y m @ ''-'' @ last_day_of y m)
      \<and> last_day_of y m =
          (if m = 2 then (if 4 dvd y \<and> (\<not> 100 dvd y \<or> 400 dvd y) then ''29'' else ''28'')
           else if m = 4 \<or> m = 6 \<or> m = 9 \<or> m = 11 then ''30'' else ''31''))
   \<and> add_recurring_month_window ym = add_expense_month_window ym
   \<and> get_budget_status_month_window ym = add_expense_month_window ym"
  using add_expense_window_key[of y m] windows_agree[of ym]
  by (simp add: last_day_of_def leap_year_def)

theorem month_window_last_day_witness:
  "add_expense_month_window ''2024-02'' = Inr (''2024-02-01'', ''2024-02-29'')
   \<and> add_expense_month_window ''2023-02'' = Inr (''2023-02-01'', ''2023-02-28'')
   \<and> add_expense_month_window ''2024-04'' = Inr (''2024-04-01'', ''2024-04-30'')
   \<and> add_expense_month_window ''2024-01'' = Inr (''2024-01-01'', ''2024-01-31'')
   \<and> add_expense_month_window ''1900-02'' = Inr (''1900-02-01'', ''1900-02-28'')
   \<and> add_recurring_month_window ''2024-02'' = Inr (''2024-02-01'', ''2024-02-29'')
   \<and> get_budget_status_month_window ''2024-02'' = Inr (''2024-02-01'', ''2024-02-29'')"
  using month_window_last_day [of 2024 2 "''2024-02''"]
        month_window_last_day [of 2023 2 "''2023-02''"]
        month_window_last_day [of 2024 4 "''2024-04''"]
        month_window_last_day [of 2024 1 "''2024-01''"]
        month_window_last_day [of 1900 2 "''1900-02''"]
  by (simp add: year_month_key_def digit_char_def)

subsection \<open>Updates\<close>

lemma fold_assign_build:
  "fold assign (build_updates date amount category subcategory note) r =
     \<lparr> exp_id = exp_id r,
       exp_date = (case date of None \<Rightarrow> exp_date r | Some d \<Rightarrow> d),
       exp_amount = (case amount of None \<Rightarrow> exp_amount r | Some a \<Rightarrow> a),
       exp_category = (case category of None \<Rightarrow> exp_category r | Some c \<Rightarrow> c),
       exp_subcategory = (case subcategory of None \<Rightarrow> exp_subcategory r | Some sc \<Rightarrow> sc),
       exp_note = (case note of None \<Rightarrow> exp_note r | Some n \<Rightarrow> n) \<rparr>"
  by (cases date; cases amount; cases category; cases subcategory; cases "note")
     (simp_all add: build_updates_def)

lemma build_updates_empty:
  "build_updates date amount category subcategory note = [] \<longleftrightarrow>
     date = None \<and> amount = None \<and> category = None \<and> subcategory = None \<and> note = None"
  by (cases date; cases amount; cases category; cases subcategory; cases "note")
     (simp_all add: build_updates_def)




lemma update_expense_ok:
  assumes "list_ex (\<lambda>r. exp_id r = i) (expenses s)"
    and "\<forall>d. date = Some d \<longrightarrow> validate_date e d"
    and "\<forall>a. amount = Some a \<longrightarrow> validate_amount a"
    and "\<forall>c. category = Some c \<longrightarrow> validate_category e c (or_empty subcategory) = None"
    and "build_updates date amount category subcategory note \<noteq> []"
  shows "update_expense e s i date amount category subcategory note
           = (Status_ok ok_plain,
              s\<lparr> expenses :=
                   run_update (build_updates date amount category subcategory note) i
                     (expenses s) \<rparr>)"
  using assms by (cases date; cases amount; cases category) (simp_all add: update_expense_def)

text \<open>
  Claim C7. When \<^verbatim>\<open>update_expense\<close> is called on an existing expense without a category
  and with a subcategory, the subcategory is written to the row under any taxonomy: it
  is not validated against the category the row has (first part; the provided date and
  amount, if any, are valid). When the category is supplied too, the subcategory is
  validated against that supplied category (second part).
\<close>

theorem update_subcategory_unvalidated:
  "(list_ex (\<lambda>r. exp_id r = i) (expenses s)
      \<and> (\<forall>d. date = Some d \<longrightarrow> validate_date e d)
      \<and> (\<forall>a. amount = Some a \<longrightarrow> validate_amount a) \<longrightarrow>
      (\<exists>s'. update_expense e s i date amount None (Some sc) note = (Status_ok ok_plain, s')
            \<and> map exp_id (expenses s') = map exp_id (expenses s)
            \<and> map exp_category (expenses s') = map exp_category (expenses s)
            \<and> map exp_subcategory (expenses s')
                = map (\<lambda>r. if exp_id r = i then sc else exp_subcategory r) (expenses s)))
   \<and> (list_ex (\<lambda>r. exp_id r = i) (expenses s)
      \<and> (\<forall>d. date = Some d \<longrightarrow> validate_date e d)
      \<and> (\<forall>a. amount = Some a \<longrightarrow> validate_amount a) \<longrightarrow>
      update_expense e s i date amount (Some c) (Some sc) note
        = (case validate_category e c sc of
             Some err \<Rightarrow> (Status_error err, s)
           | None \<Rightarrow>
               (Status_ok ok_plain,
                s\<lparr> expenses :=
                     run_update (build_updates date amount (Some c) (Some sc) note) i
                       (expenses s) \<rparr>)))"
proof (intro conjI impI)
  assume a: "list_ex (\<lambda>r. exp_id r = i) (expenses s)
      \<and> (\<forall>d. date = Some d \<longrightarrow> validate_date e d)
      \<and> (\<forall>a. amount = Some a \<longrightarrow> validate_amount a)"
  have ne: "build_updates date amount None (Some sc) note \<noteq> []"
    by (simp add: build_updates_empty)
  have "update_expense e s i date amount None (Some sc) note
          = (Status_ok ok_plain,
             s\<lparr> expenses := run_update (build_updates date amount None (Some sc) note) i
                               (expenses s) \<rparr>)"
    using a ne by (intro update_expense_ok) simp_all
  then show "\<exists>s'. update_expense e s i date amount None (Some sc) note = (Status_ok ok_plain, s')
            \<and> map exp_id (expenses s') = map exp_id (expenses s)
            \<and> map exp_category (expenses s') = map exp_category (expenses s)
            \<and> map exp_subcategory (expenses s')
                = map (\<lambda>r. if exp_id r = i then sc else exp_subcategory r) (expenses s)"
    by (simp add: run_update_def fold_assign_build)
  have ne': "build_updates date amount (Some c) (Some sc) note \<noteq> []"
    by (simp add: build_updates_empty)
  show "update_expense e s i date amount (Some c) (Some sc) note
        = (case validate_category e c sc of
             Some err \<Rightarrow> (Status_error err, s)
           | None \<Rightarrow>
               (Status_ok ok_plain,
                s\<lparr> expenses :=
                     run_update (build_updates date amount (Some c) (Some sc) note) i
                       (expenses s) \<rparr>))"
    using a ne'
    by (cases date; cases amount; cases "validate_category e c sc")
       (simp_all add: update_expense_def or_empty_def)
qed

theorem update_subcategory_unvalidated_witness:
  "list_ex (\<lambda>r. exp_id r = 5) (expenses example_db)
   \<and> validate_category example_env ''food'' ''rent'' = Some (Invalid_subcategory ''rent'' ''food'')
   \<and> update_expense example_env example_db 5 None None None (Some ''rent'') None
       = (Status_ok ok_plain,
          example_db\<lparr> expenses :=
            [\<lparr> exp_id = 5, exp_date = ''2026-01-10'', exp_amount = 10, exp_category = ''food'',
               exp_subcategory = ''rent'', exp_note = ''milk'' \<rparr>,
             \<lparr> exp_id = 6, exp_date = ''2026-01-12'', exp_amount = 55, exp_category = ''food'',
               exp_subcategory = ''dining'', exp_note = [] \<rparr>] \<rparr>)
   \<and> update_expense example_env example_db 5 None None (Some ''food'') (Some ''rent'') None
       = (Status_error (Invalid_subcategory ''rent'' ''food''), example_db)"
  using update_subcategory_unvalidated
          [of 5 example_db None example_env None "''rent''" None "''food''"]
  by (simp add: example_db_def example_env_def example_categories_def validate_category_def
        update_expense_def or_empty_def build_updates_def run_update_def)

lemma update_expense_status_ok:
  assumes "update_expense e s i date amount category subcategory note = (Status_ok ok, s')"
  shows "list_ex (\<lambda>r. exp_id r = i) (expenses s)
         \<and> (\<forall>d. date = Some d \<longrightarrow> validate_date e d)
         \<and> (\<forall>a. amount = Some a \<longrightarrow> validate_amount a)
         \<and> (\<forall>c. category = Some c \<longrightarrow> validate_category e c (or_empty subcategory) = None)
         \<and> build_updates date amount category subcategory note \<noteq> []"
  using assms
  by (cases date; cases amount; cases category)
     (simp_all add: update_expense_def Let_def split: if_splits)

text \<open>
  Claim C8. A successful \<^verbatim>\<open>update_expense\<close> changes, in the rows with the given id,
  exactly the fields that were provided; their other fields, every other row and the
  other tables stay as they were. Whether the call succeeds depends on the existence of
  the id and on the provided values only, never on what is stored in a field that was
  not provided. A call on an existing id that provides no field is answered with the
  error "No fields provided to update".
\<close>

theorem update_frame:
  "(update_expense e s i date amount category subcategory note = (Status_ok ok, s') \<longrightarrow>
      ok = ok_plain
      \<and> s' = s\<lparr> expenses := expenses s' \<rparr>
      \<and> expenses s' =
          map (\<lambda>r. if exp_id r = i
                    then \<lparr> exp_id = exp_id r,
                           exp_date = (case date of None \<Rightarrow> exp_date r | Some d \<Rightarrow> d),
                           exp_amount = (case amount of None \<Rightarrow> exp_amount r | Some a \<Rightarrow> a),
                           exp_category =
                             (case category of None \<Rightarrow> exp_category r | Some c \<Rightarrow> c),
                           exp_subcategory =
                             (case subcategory of None \<Rightarrow> exp_subcategory r | Some sc \<Rightarrow> sc),
                           exp_note = (case note of None \<Rightarrow> exp_note r | Some n \<Rightarrow> n) \<rparr>
                    else r) (expenses s))
   \<and> ((\<exists>ok' s''. update_expense e s i date amount category subcategory note
                    = (Status_ok ok', s''))
        \<longleftrightarrow> list_ex (\<lambda>r. exp_id r = i) (expenses s)
            \<and> (\<forall>d. date = Some d \<longrightarrow> validate_date e d)
            \<and> (\<forall>a. amount = Some a \<longrightarrow> validate_amount a)
            \<and> (\<forall>c. category = Some c \<longrightarrow> validate_category e c (or_empty subcategory) = None)
            \<and> (date \<noteq> None \<or> amount \<noteq> None \<or> category \<noteq> None \<or> subcategory \<noteq> None
                 \<or> note \<noteq> None))
   \<and> (list_ex (\<lambda>r. exp_id r = i) (expenses s) \<longrightarrow>
        update_expense e s i None None None None None = (Status_error No_fields_to_update, s))"
proof (intro conjI impI)
  assume r: "update_expense e s i date amount category subcategory note = (Status_ok ok, s')"
  note c = update_expense_status_ok[OF r]
  have "update_expense e s i date amount category subcategory note
          = (Status_ok ok_plain,
             s\<lparr> expenses := run_update (build_updates date amount category subcategory note) i
                               (expenses s) \<rparr>)"
    using c by (intro update_expense_ok) simp_all
  with r have ok: "ok = ok_plain"
    and s': "s' = s\<lparr> expenses := run_update (build_updates date amount category subcategory note)
                                   i (expenses s) \<rparr>"
    by simp_all
  show "ok = ok_plain" by (rule ok)
  show "s' = s\<lparr> expenses := expenses s' \<rparr>" by (subst (2) s', subst s') simp
  show "expenses s' =
          map (\<lambda>r. if exp_id r = i
                    then \<lparr> exp_id = exp_id r,
                           exp_date = (case date of None \<Rightarrow> exp_date r | Some d \<Rightarrow> d),
                           exp_amount = (case amount of None \<Rightarrow> exp_amount r | Some a \<Rightarrow> a),
                           exp_category =
                             (case category of None \<Rightarrow> exp_category r | Some c \<Rightarrow> c),
                           exp_subcategory =
                             (case subcategory of None \<Rightarrow> exp_subcategory r | Some sc \<Rightarrow> sc),
                           exp_note = (case note of None \<Rightarrow> exp_note r | Some n \<Rightarrow> n) \<rparr>
                    else r) (expenses s)"
    by (simp add: s' run_update_def fold_assign_build)
next
  show "(\<exists>ok' s''. update_expense e s i date amount category subcategory note
                    = (Status_ok ok', s''))
        \<longleftrightarrow> list_ex (\<lambda>r. exp_id r = i) (expenses s)
            \<and> (\<forall>d. date = Some d \<longrightarrow> validate_date e d)
            \<and> (\<forall>a. amount = Some a \<longrightarrow> validate_amount a)
            \<and> (\<forall>c. category = Some c \<longrightarrow> validate_category e c (or_empty subcategory) = None)
            \<and> (date \<noteq> None \<or> amount \<noteq> None \<or> category \<noteq> None \<or> subcategory \<noteq> None
                 \<or> note \<noteq> None)"
    (is "?L \<longleftrightarrow> ?R")
  proof
    assume ?L
    then obtain ok' s'' where
      "update_expense e s i date amount category subcategory note = (Status_ok ok', s'')"
      by blast
    from update_expense_status_ok[OF this] show ?R
      by (simp add: build_updates_empty)
  next
    assume ?R
    then have "update_expense e s i date amount category subcategory note
          = (Status_ok ok_plain,
             s\<lparr> expenses := run_update (build_updates date amount category subcategory note) i
                               (expenses s) \<rparr>)"
      by (intro update_expense_ok) (simp_all add: build_updates_empty)
    then show ?L by blast
  qed
next
  assume "list_ex (\<lambda>r. exp_id r = i) (expenses s)"
  then show "update_expense e s i None None None None None
               = (Status_error No_fields_to_update, s)"
    by (simp add: update_expense_def build_updates_def)
qed

theorem update_frame_witness:
  "update_expense example_env example_db 5 None (Some 42.5) None None None
     = (Status_ok ok_plain,
        example_db\<lparr> expenses :=
          [\<lparr> exp_id = 5, exp_date = ''2026-01-10'', exp_amount = 42.5, exp_category = ''food'',
             exp_subcategory = ''groceries'', exp_note = ''milk'' \<rparr>,
           \<lparr> exp_id = 6, exp_date = ''2026-01-12'', exp_amount = 55, exp_category = ''food'',
             exp_subcategory = ''dining'', exp_note = [] \<rparr>] \<rparr>)
   \<and> list_ex (\<lambda>r. exp_id r = 5) (expenses example_db)
   \<and> update_expense example_env example_db 5 None None None None None
       = (Status_error No_fields_to_update, example_db)"
proof -
  have run: "update_expense example_env example_db 5 None (Some 42.5) None None None
     = (Status_ok ok_plain,
        example_db\<lparr> expenses := run_update [Set_amount 42.5] 5 (expenses example_db) \<rparr>)"
    by (simp add: update_expense_def example_db_def validate_amount_def build_updates_def)
  have ex: "list_ex (\<lambda>r. exp_id r = 5) (expenses example_db)"
    by (simp add: example_db_def)
  from update_frame [of example_env example_db 5 None "Some 42.5" None None None ok_plain
        "example_db\<lparr> expenses := run_update [Set_amount 42.5] 5 (expenses example_db) \<rparr>"]
    run ex
  show ?thesis
    by (simp add: example_db_def run_update_def)
qed

subsection \<open>Deletion\<close>

lemma delete_by_id:
  "delete_expense e s (Some i) ids start_date end_date category delete_all =
     (if list_ex (\<lambda>r. exp_id r = i) (expenses s)
      then (Status_ok (ok_plain\<lparr> ok_deleted_count := Some 1 \<rparr>),
            s\<lparr> expenses := filter (\<lambda>r. exp_id r \<noteq> i) (expenses s) \<rparr>)
      else (Status_error (Expense_not_found i), s))"
  by (simp add: delete_expense_def)

lemma delete_by_ids:
  "l \<noteq> [] \<Longrightarrow>
   delete_expense e s None (Some l) start_date end_date category delete_all =
     (if filter (\<lambda>r. exp_id r \<in> set l) (expenses s) = []
      then (Status_error No_expenses_with_ids, s)
      else (Status_ok (ok_plain\<lparr> ok_deleted_count :=
                         Some (length (filter (\<lambda>r. exp_id r \<in> set l) (expenses s))) \<rparr>),
            s\<lparr> expenses := filter (\<lambda>r. exp_id r \<notin> set l) (expenses s) \<rparr>))"
  by (simp add: delete_expense_def Let_def)

lemma delete_all_alone:
  assumes "ids = None \<or> ids = Some []" "start_date = None \<or> end_date = None"
  shows "delete_expense e s None ids start_date end_date None True =
     (if expenses s = [] then (Status_error No_expenses_to_delete, s)
      else (Status_ok (ok_plain\<lparr> ok_deleted_count := Some (length (expenses s)),
                                 ok_warning := True \<rparr>),
            s\<lparr> expenses := [] \<rparr>))"
  using assms by (auto simp: delete_expense_def Let_def)

lemma delete_nothing_given:
  assumes "ids = None \<or> ids = Some []" "start_date = None \<or> end_date = None"
  shows "delete_expense e s None ids start_date end_date None False =
           (Status_error No_deletion_criteria, s)"
  using assms by (auto simp: delete_expense_def Let_def)

lemma delete_by_conditions:
  assumes "ids = None \<or> ids = Some []"
    and "(start_date \<noteq> None \<and> end_date \<noteq> None) \<or> category \<noteq> None"
  shows "delete_expense e s None ids start_date end_date category delete_all =
           delete_expense e s None None start_date end_date category False"
  using assms by (cases category) (auto simp: delete_expense_def Let_def)

text \<open>
  Claim C4, amended. One addressing mode of \<^verbatim>\<open>delete_expense\<close> applies and the other
  arguments are ignored: an id first; otherwise a non-empty list of ids; otherwise the
  conditions (a date range with both ends, a category, or both), where \<^verbatim>\<open>delete_all\<close>
  is ignored. \<^verbatim>\<open>delete_all\<close> takes effect when there is no id, the list of ids is absent or
  empty, the start and end date are not both given, and there is no category: a
  non-empty ledger then loses every row and \<^verbatim>\<open>deleted_count\<close> is the number of rows it
  had, an empty ledger is answered with an error. The same call without
  \<^verbatim>\<open>delete_all\<close> is answered with the error "No deletion criteria provided".
\<close>

theorem delete_addressing:
  "delete_expense e s (Some i) ids start_date end_date category delete_all
     = delete_expense e s (Some i) None None None None False
   \<and> (l \<noteq> [] \<longrightarrow>
        delete_expense e s None (Some l) start_date end_date category delete_all
          = delete_expense e s None (Some l) None None None False)
   \<and> ((ids = None \<or> ids = Some [])
        \<and> ((start_date \<noteq> None \<and> end_date \<noteq> None) \<or> category \<noteq> None) \<longrightarrow>
        delete_expense e s None ids start_date end_date category delete_all
          = delete_expense e s None None start_date end_date category False)
   \<and> ((ids = None \<or> ids = Some []) \<and> (start_date = None \<or> end_date = None) \<longrightarrow>
        delete_expense e s None ids start_date end_date None True
          = (if expenses s = [] then (Status_error No_expenses_to_delete, s)
             else (Status_ok (ok_plain\<lparr> ok_deleted_count := Some (length (expenses s)),
                                        ok_warning := True \<rparr>),
                   s\<lparr> expenses := [] \<rparr>))
        \<and> delete_expense e s None ids start_date end_date None False
          = (Status_error No_deletion_criteria, s))"
  using delete_by_ids [of l e s] delete_by_conditions [of ids start_date end_date category]
    delete_all_alone [of ids start_date end_date] delete_nothing_given [of ids start_date end_date]
  by (simp add: delete_by_id)

theorem delete_addressing_witness:
  "delete_expense example_env example_db (Some 5) (Some [6]) (Some ''2026-01-01'')
      (Some ''2026-01-31'') (Some ''food'') True
     = (Status_ok (ok_plain\<lparr> ok_deleted_count := Some 1 \<rparr>),
        example_db\<lparr> expenses := [\<lparr> exp_id = 6, exp_date = ''2026-01-12'', exp_amount = 55,
             exp_category = ''food'', exp_subcategory = ''dining'', exp_note = [] \<rparr>] \<rparr>)
   \<and> delete_expense example_env example_db None (Some [6]) (Some ''2026-01-01'')
      (Some ''2026-01-31'') (Some ''food'') True
     = (Status_ok (ok_plain\<lparr> ok_deleted_count := Some 1 \<rparr>),
        example_db\<lparr> expenses := [\<lparr> exp_id = 5, exp_date = ''2026-01-10'', exp_amount = 10,
             exp_category = ''food'', exp_subcategory = ''groceries'', exp_note = ''milk'' \<rparr>] \<rparr>)
   \<and> delete_expense example_env example_db None None (Some ''2026-01-11'')
      (Some ''2026-01-31'') (Some ''food'') True
     = (Status_ok (ok_plain\<lparr> ok_deleted_count := Some 1 \<rparr>),
        example_db\<lparr> expenses := [\<lparr> exp_id = 5, exp_date = ''2026-01-10'', exp_amount = 10,
             exp_category = ''food'', exp_subcategory = ''groceries'', exp_note = ''milk'' \<rparr>] \<rparr>)
   \<and> delete_expense example_env example_db None None None None None True
     = (Status_ok (ok_plain\<lparr> ok_deleted_count := Some 2, ok_warning := True \<rparr>),
        example_db\<lparr> expenses := [] \<rparr>)
   \<and> delete_expense example_env init_db None None None None None True
     = (Status_error No_expenses_to_delete, init_db)
   \<and> delete_expense example_env example_db None None None None None False
     = (Status_error No_deletion_criteria, example_db)"
proof -
  have d: "validate_date example_env ''2026-01-11''" "validate_date example_env ''2026-01-31''"
    by (simp_all add: validate_date_def example_env_def example_strptime_def year_field_def
          month_field_def day_field_def day_value_def days_in_month_def field_value_def
          py_int_def is_digit_def digit_val_def)
  have a: "delete_expense example_env example_db (Some 5) None None None None False
     = (Status_ok (ok_plain\<lparr> ok_deleted_count := Some 1 \<rparr>),
        example_db\<lparr> expenses := [\<lparr> exp_id = 6, exp_date = ''2026-01-12'', exp_amount = 55,
             exp_category = ''food'', exp_subcategory = ''dining'', exp_note = [] \<rparr>] \<rparr>)"
    by (simp add: delete_expense_def example_db_def)
  have b: "delete_expense example_env example_db None (Some [6]) None None None False
     = (Status_ok (ok_plain\<lparr> ok_deleted_count := Some 1 \<rparr>),
        example_db\<lparr> expenses := [\<lparr> exp_id = 5, exp_date = ''2026-01-10'', exp_amount = 10,
             exp_category = ''food'', exp_subcategory = ''groceries'', exp_note = ''milk'' \<rparr>] \<rparr>)"
    by (simp add: delete_expense_def example_db_def)
  have c: "delete_expense example_env example_db None None (Some ''2026-01-11'')
      (Some ''2026-01-31'') (Some ''food'') False
     = (Status_ok (ok_plain\<lparr> ok_deleted_count := Some 1 \<rparr>),
        example_db\<lparr> expenses := [\<lparr> exp_id = 5, exp_date = ''2026-01-10'', exp_amount = 10,
             exp_category = ''food'', exp_subcategory = ''groceries'', exp_note = ''milk'' \<rparr>] \<rparr>)"
    using d by (simp add: delete_expense_def example_db_def matches_def between_def)
  show ?thesis
    using delete_addressing [of example_env example_db 5 "Some [6]" "Some ''2026-01-01''"
            "Some ''2026-01-31''" "Some ''food''" True "[6]"]
          delete_addressing [of example_env example_db 5 None "Some ''2026-01-11''"
            "Some ''2026-01-31''" "Some ''food''" True "[6]"]
          delete_addressing [of example_env example_db 5 None None None None True "[6]"]
          delete_addressing [of example_env init_db 5 None None None None True "[6]"]
          a b c
    by (simp add: example_db_def init_db_def)
qed

text \<open>The claim as stated fails: with a start date and no end date, \<^verbatim>\<open>delete_all\<close>
  empties the ledger.\<close>

theorem delete_all_counterexample:
  "delete_expense example_env example_db None None (Some ''2026-01-01'') None None True
     = (Status_ok (ok_plain\<lparr> ok_deleted_count := Some 2, ok_warning := True \<rparr>),
        example_db\<lparr> expenses := [] \<rparr>)"
  by (simp add: delete_expense_def example_db_def)

subsection \<open>Alerts in the response\<close>

lemma check_budget_eq:
  "check_budget category limit threshold spent =
     Inr (let percentage = (if limit > 0 then spent / limit * 100 else 0)
          in if percentage \<ge> 100
             then Some (make_alert CRITICAL category spent limit percentage)
             else if percentage \<ge> threshold * 100
             then Some (make_alert WARNING category spent limit percentage)
             else None)"
  by (simp add: check_budget_def budget_percentage_eq Let_def)






subsection \<open>Row identifiers\<close>

lemma fold_max_ge: "(a::int) \<le> fold max xs a"
proof (induction xs arbitrary: a)
  case Nil
  show ?case by simp
next
  case (Cons x xs)
  have "a \<le> max x a" by simp
  also have "\<dots> \<le> fold max xs (max x a)" by (rule Cons.IH)
  finally show ?case by simp
qed

lemma fold_max_member: "(x::int) \<in> set xs \<Longrightarrow> x \<le> fold max xs a"
proof (induction xs arbitrary: a)
  case Nil
  then show ?case by simp
next
  case (Cons y ys)
  show ?case
  proof (cases "x = y")
    case True
    have "x \<le> max y a" using True by simp
    also have "\<dots> \<le> fold max ys (max y a)" by (rule fold_max_ge)
    finally show ?thesis by simp
  next
    case False
    with Cons.prems have "x \<in> set ys" by simp
    then show ?thesis using Cons.IH by simp
  qed
qed

lemma next_rowid_fresh: "x \<in> set ids \<Longrightarrow> x < next_rowid seq ids"
  using fold_max_member[of x ids 0] by (simp add: next_rowid_def)

lemma next_rowid_not_member: "next_rowid seq ids \<notin> set ids"
  using next_rowid_fresh[of "next_rowid seq ids" ids seq] by auto

subsection \<open>Recurring expenses\<close>

lemma add_recurring_state:
  assumes "validate_amount amount" "validate_date e start_date"
    "or_empty end_date = [] \<or> validate_date e (or_empty end_date)"
    "frequency \<in> set [''daily'', ''weekly'', ''monthly'', ''yearly'']"
    "validate_category e category subcategory = None"
  shows "snd (add_recurring_expense e s amount category frequency start_date subcategory
                note end_date) =
     s\<lparr> recurring_expenses := recurring_expenses s @
           [\<lparr> rec_id = next_rowid (recurring_seq s) (map rec_id (recurring_expenses s)),
              rec_amount = amount, rec_category = category, rec_subcategory = subcategory,
              rec_note = note, rec_frequency = frequency, rec_start_date = start_date,
              rec_end_date = end_date, rec_last_applied = Some start_date, rec_active = 1 \<rparr>],
         recurring_seq := next_rowid (recurring_seq s) (map rec_id (recurring_expenses s)),
         expenses := expenses s @
           [\<lparr> exp_id = next_rowid (expenses_seq s) (map exp_id (expenses s)),
              exp_date = start_date, exp_amount = amount, exp_category = category,
              exp_subcategory = subcategory, exp_note = recurring_note frequency note \<rparr>],
         expenses_seq := next_rowid (expenses_seq s) (map exp_id (expenses s)) \<rparr>"
  using assms
  by (auto simp: add_recurring_expense_def Let_def split: option.splits sum.splits prod.splits)

lemma add_recurring_response:
  assumes "validate_amount amount" "validate_date e start_date"
    "or_empty end_date = [] \<or> validate_date e (or_empty end_date)"
    "frequency \<in> set [''daily'', ''weekly'', ''monthly'', ''yearly'']"
    "validate_category e category subcategory = None"
    "\<forall>x. add_recurring_month_window (take 7 start_date) \<noteq> Inl x"
  shows "\<exists>ok. fst (add_recurring_expense e s amount category frequency start_date subcategory
                     note end_date) = Status_ok ok
              \<and> ok_recurring_id ok
                  = Some (next_rowid (recurring_seq s) (map rec_id (recurring_expenses s)))
              \<and> ok_first_expense_id ok
                  = Some (next_rowid (expenses_seq s) (map exp_id (expenses s)))"
  using assms
  by (auto simp: add_recurring_expense_def Let_def check_budget_eq ok_plain_def
           split: option.splits sum.splits prod.splits)

lemma set_list_recurring:
  "set (list_recurring_expenses s active_only) =
     (if active_only then {r \<in> set (recurring_expenses s). rec_active r = 1}
      else set (recurring_expenses s))"
  by (auto simp: list_recurring_expenses_def)

lemma recurring_frame:
  "recurring_expenses (snd (add_expense e t date amount category subcategory n))
     = recurring_expenses t"
  "recurring_expenses (snd (update_expense e t i date' amount' category' subcategory' n'))
     = recurring_expenses t"
  "recurring_expenses (snd (delete_expense e t i' ids start_date end_date category'' delete_all))
     = recurring_expenses t"
  "recurring_expenses (snd (set_budget e t category monthly_limit alert_threshold))
     = recurring_expenses t"
  "recurring_expenses (snd (delete_budget t category)) = recurring_expenses t"
  by (simp_all add: add_expense_def update_expense_def delete_expense_def set_budget_def
        delete_budget_def Let_def split: option.splits sum.splits prod.splits)

text \<open>
  Claim C6. A valid \<^verbatim>\<open>add_recurring_expense\<close> call appends exactly one definition, with
  \<^verbatim>\<open>last_applied\<close> equal to the start date and \<^verbatim>\<open>active\<close> equal to 1, and exactly one
  expense dated at the start date; without a note the expense is marked by the generated
  note \<^verbatim>\<open>Recurring <frequency> expense\<close> (a supplied note gets the prefix
  \<^verbatim>\<open>[Recurring <frequency>]\<close>). The definition is in the listing of the active
  definitions. \<^verbatim>\<open>deactivate_recurring_expense\<close> on its id succeeds, keeps the row with
  \<^verbatim>\<open>active\<close> 0 (it is still in the full listing) and removes it from the listing of
  the active ones. No other mutating tool touches the table of definitions.
\<close>

theorem recurring_lifecycle:
  fixes s :: db and e :: env and amount :: real
    and category subcategory note' frequency start_date :: string
    and end_date :: "string option"
  defines "rid \<equiv> next_rowid (recurring_seq s) (map rec_id (recurring_expenses s))"
    and "eid \<equiv> next_rowid (expenses_seq s) (map exp_id (expenses s))"
  defines "row \<equiv> \<lparr> rec_id = rid, rec_amount = amount, rec_category = category,
                    rec_subcategory = subcategory, rec_note = note', rec_frequency = frequency,
                    rec_start_date = start_date, rec_end_date = end_date,
                    rec_last_applied = Some start_date, rec_active = 1 \<rparr>"
    and "s' \<equiv> snd (add_recurring_expense e s amount category frequency start_date subcategory
                      note' end_date)"
  defines "s'' \<equiv> snd (deactivate_recurring_expense s' rid)"
  assumes "validate_amount amount" "validate_date e start_date"
    "or_empty end_date = [] \<or> validate_date e (or_empty end_date)"
    "frequency \<in> set [''daily'', ''weekly'', ''monthly'', ''yearly'']"
    "validate_category e category subcategory = None"
  shows "recurring_expenses s' = recurring_expenses s @ [row]
    \<and> expenses s' = expenses s @
         [\<lparr> exp_id = eid, exp_date = start_date, exp_amount = amount, exp_category = category,
            exp_subcategory = subcategory,
            exp_note = (if note' = [] then ''Recurring '' @ frequency @ '' expense''
                        else ''[Recurring '' @ frequency @ ''] '' @ note') \<rparr>]
    \<and> budgets s' = budgets s
    \<and> ((\<forall>x. add_recurring_month_window (take 7 start_date) \<noteq> Inl x) \<longrightarrow>
         (\<exists>ok. fst (add_recurring_expense e s amount category frequency start_date subcategory
                      note' end_date) = Status_ok ok
               \<and> ok_recurring_id ok = Some rid \<and> ok_first_expense_id ok = Some eid))
    \<and> row \<in> set (list_recurring_expenses s' True)
    \<and> fst (deactivate_recurring_expense s' rid) = Status_ok ok_plain
    \<and> recurring_expenses s'' = recurring_expenses s @ [row\<lparr> rec_active := 0 \<rparr>]
    \<and> expenses s'' = expenses s'
    \<and> (\<forall>r \<in> set (list_recurring_expenses s'' True). rec_id r \<noteq> rid)
    \<and> row\<lparr> rec_active := 0 \<rparr> \<in> set (list_recurring_expenses s'' False)
    \<and> recurring_expenses (snd (add_expense e t date amount' category' subcategory' n))
        = recurring_expenses t
    \<and> recurring_expenses (snd (update_expense e t i date' amount'' category'' subcategory'' n'))
        = recurring_expenses t
    \<and> recurring_expenses (snd (delete_expense e t i' ids lo hi category''' delete_all))
        = recurring_expenses t
    \<and> recurring_expenses (snd (set_budget e t category'''' monthly_limit alert_threshold))
        = recurring_expenses t
    \<and> recurring_expenses (snd (delete_budget t category'''')) = recurring_expenses t"
proof -
  note st = add_recurring_state[OF assms(6-10), of s note', folded rid_def eid_def, folded row_def]
  have rs': "recurring_expenses s' = recurring_expenses s @ [row]"
    unfolding s'_def st by simp
  have es': "expenses s' = expenses s @
         [\<lparr> exp_id = eid, exp_date = start_date, exp_amount = amount, exp_category = category,
            exp_subcategory = subcategory,
            exp_note = (if note' = [] then ''Recurring '' @ frequency @ '' expense''
                        else ''[Recurring '' @ frequency @ ''] '' @ note') \<rparr>]"
    unfolding s'_def st by (simp add: recurring_note_def)
  have bs': "budgets s' = budgets s"
    unfolding s'_def st by simp
  have fresh: "\<forall>r \<in> set (recurring_expenses s). rec_id r \<noteq> rid"
  proof
    fix r assume "r \<in> set (recurring_expenses s)"
    then have "rec_id r \<in> set (map rec_id (recurring_expenses s))" by simp
    from next_rowid_fresh[OF this, of "recurring_seq s"] show "rec_id r \<noteq> rid"
      unfolding rid_def by simp
  qed
  have rowid: "rec_id row = rid" and rowact: "rec_active row = 1"
    by (simp_all add: row_def)
  have in_list: "row \<in> set (list_recurring_expenses s' True)"
    by (simp add: set_list_recurring rs' rowact)
  have ex: "list_ex (\<lambda>r. rec_id r = rid) (recurring_expenses s')"
    by (simp add: rs' rowid list_ex_iff)
  have same: "map (\<lambda>r. if rec_id r = rid then r\<lparr> rec_active := 0 \<rparr> else r)
                (recurring_expenses s) = recurring_expenses s"
    using fresh by (simp add: map_idI)
  have d: "deactivate_recurring_expense s' rid =
             (Status_ok ok_plain,
              s'\<lparr> recurring_expenses := recurring_expenses s @ [row\<lparr> rec_active := 0 \<rparr>] \<rparr>)"
    using ex by (simp add: deactivate_recurring_expense_def rs' same rowid)
  have rs'': "recurring_expenses s'' = recurring_expenses s @ [row\<lparr> rec_active := 0 \<rparr>]"
    and es'': "expenses s'' = expenses s'"
    unfolding s''_def d by simp_all
  have gone: "\<forall>r \<in> set (list_recurring_expenses s'' True). rec_id r \<noteq> rid"
    using fresh by (auto simp: set_list_recurring rs'')
  have kept: "row\<lparr> rec_active := 0 \<rparr> \<in> set (list_recurring_expenses s'' False)"
    by (simp add: set_list_recurring rs'')
  note resp = add_recurring_response[OF assms(6-10), of s note', folded rid_def eid_def]
  show ?thesis
    using rs' es' bs' in_list rs'' es'' gone kept resp
    by (simp add: d recurring_frame)
qed

theorem recurring_lifecycle_witness:
  "validate_amount 1200 \<and> validate_date example_env ''2026-01-15''
   \<and> ''monthly'' \<in> set [''daily'', ''weekly'', ''monthly'', ''yearly'']
   \<and> validate_category example_env ''housing'' ''rent'' = None
   \<and> recurring_expenses (snd (add_recurring_expense example_env example_db 1200 ''housing''
          ''monthly'' ''2026-01-15'' ''rent'' [] None))
      = [\<lparr> rec_id = 1, rec_amount = 1200, rec_category = ''housing'',
           rec_subcategory = ''rent'', rec_note = [], rec_frequency = ''monthly'',
           rec_start_date = ''2026-01-15'', rec_end_date = None,
           rec_last_applied = Some ''2026-01-15'', rec_active = 1 \<rparr>]
   \<and> expenses (snd (add_recurring_expense example_env example_db 1200 ''housing''
          ''monthly'' ''2026-01-15'' ''rent'' [] None))
      = expenses example_db @
        [\<lparr> exp_id = 7, exp_date = ''2026-01-15'', exp_amount = 1200,
           exp_category = ''housing'', exp_subcategory = ''rent'',
           exp_note = ''Recurring monthly expense'' \<rparr>]
   \<and> list_recurring_expenses (snd (add_recurring_expense example_env example_db 1200
          ''housing'' ''monthly'' ''2026-01-15'' ''rent'' [] None)) True
      = [\<lparr> rec_id = 1, rec_amount = 1200, rec_category = ''housing'',
           rec_subcategory = ''rent'', rec_note = [], rec_frequency = ''monthly'',
           rec_start_date = ''2026-01-15'', rec_end_date = None,
           rec_last_applied = Some ''2026-01-15'', rec_active = 1 \<rparr>]
   \<and> list_recurring_expenses (snd (deactivate_recurring_expense
          (snd (add_recurring_expense example_env example_db 1200 ''housing'' ''monthly''
                  ''2026-01-15'' ''rent'' [] None)) 1)) True = []
   \<and> list_recurring_expenses (snd (deactivate_recurring_expense
          (snd (add_recurring_expense example_env example_db 1200 ''housing'' ''monthly''
                  ''2026-01-15'' ''rent'' [] None)) 1)) False
      = [\<lparr> rec_id = 1, rec_amount = 1200, rec_category = ''housing'',
           rec_subcategory = ''rent'', rec_note = [], rec_frequency = ''monthly'',
           rec_start_date = ''2026-01-15'', rec_end_date = None,
           rec_last_applied = Some ''2026-01-15'', rec_active = 0 \<rparr>]"
proof -
  have h1: "validate_amount 1200"
    by (simp add: validate_amount_def)
  have h2: "validate_date example_env ''2026-01-15''"
    by (simp add: validate_date_def example_env_def example_strptime_def year_field_def
          month_field_def day_field_def day_value_def days_in_month_def field_value_def
          py_int_def is_digit_def digit_val_def)
  have h3: "or_empty None = [] \<or> validate_date example_env (or_empty None)"
    by (simp add: or_empty_def)
  have h4: "''monthly'' \<in> set [''daily'', ''weekly'', ''monthly'', ''yearly'']"
    by simp
  have h5: "validate_category example_env ''housing'' ''rent'' = None"
    by (simp add: validate_category_def example_env_def example_categories_def)
  have n: "next_rowid (recurring_seq example_db) (map rec_id (recurring_expenses example_db)) = 1"
    "next_rowid (expenses_seq example_db) (map exp_id (expenses example_db)) = 7"
    by (simp_all add: next_rowid_def example_db_def)
  note t = recurring_lifecycle [OF h1 h2 h3 h4 h5, where s = example_db and note' = "[]",
      unfolded n]
  note c1 = t [THEN conjunct1] and c2 = t [THEN conjunct2, THEN conjunct1]
    and c7 = t [THEN conjunct2, THEN conjunct2, THEN conjunct2, THEN conjunct2,
                THEN conjunct2, THEN conjunct2, THEN conjunct1]
  from c1 c2 c7 h1 h2 h4 h5 show ?thesis
    by (simp add: list_recurring_expenses_def example_db_def)
qed

subsection \<open>Listing\<close>









subsection \<open>Breakdown\<close>





















subsection \<open>Text order and calendar order\<close>

lemma digit_char_code: "i < 10 \<Longrightarrow> (of_char (digit_char i) :: nat) = 48 + i"
  by (drule below_ten) (auto simp: digit_char_def)

lemma digit_char_order:
  assumes "i < 10" "j < 10"
  shows "digit_char i < digit_char j \<longleftrightarrow> i < j"
    and "digit_char i = digit_char j \<longleftrightarrow> i = j"
proof -
  note ci = digit_char_code[OF assms(1)] and cj = digit_char_code[OF assms(2)]
  show "digit_char i < digit_char j \<longleftrightarrow> i < j"
    unfolding less_char_def ci cj by simp
  have "i = j" if "digit_char i = digit_char j"
  proof -
    from that have "(of_char (digit_char i) :: nat) = of_char (digit_char j)" by (rule arg_cong)
    then show ?thesis unfolding ci cj by simp
  qed
  then show "digit_char i = digit_char j \<longleftrightarrow> i = j" by blast
qed

lemma one_digit_le:
  assumes "i < 10" "j < 10"
  shows "digit_char i # u \<le> digit_char j # v \<longleftrightarrow> i < j \<or> (i = j \<and> u \<le> v)"
  unfolding Cons_le_Cons digit_char_order[OF assms] by (rule refl)

lemma two_digit_le:
  assumes "a < 100" "b < 100"
  shows "digit_char (a div 10) # digit_char (a mod 10) # u
           \<le> digit_char (b div 10) # digit_char (b mod 10) # v
         \<longleftrightarrow> a < b \<or> (a = b \<and> u \<le> v)"
proof -
  have d: "a div 10 < 10" "b div 10 < 10" and m: "a mod 10 < 10" "b mod 10 < 10"
    using assms by simp_all
  have ab: "a = 10 * (a div 10) + a mod 10" "b = 10 * (b div 10) + b mod 10"
    by simp_all
  have lt: "a < b \<longleftrightarrow> a div 10 < b div 10 \<or> (a div 10 = b div 10 \<and> a mod 10 < b mod 10)"
    using m by (subst ab(1), subst ab(2)) linarith
  have eq: "a = b \<longleftrightarrow> a div 10 = b div 10 \<and> a mod 10 = b mod 10"
    by (metis ab)
  have "digit_char (a div 10) # digit_char (a mod 10) # u
           \<le> digit_char (b div 10) # digit_char (b mod 10) # v
        \<longleftrightarrow> a div 10 < b div 10
            \<or> (a div 10 = b div 10
                \<and> (a mod 10 < b mod 10 \<or> (a mod 10 = b mod 10 \<and> u \<le> v)))"
    by (simp only: one_digit_le[OF d] one_digit_le[OF m])
  also have "\<dots> \<longleftrightarrow> a < b \<or> (a = b \<and> u \<le> v)"
    unfolding lt eq by blast
  finally show ?thesis .
qed

lemma four_digit_le:
  assumes "a < 10000" "b < 10000"
  shows "digit_char (a div 1000) # digit_char (a div 100 mod 10) # digit_char (a div 10 mod 10)
           # digit_char (a mod 10) # u
         \<le> digit_char (b div 1000) # digit_char (b div 100 mod 10) # digit_char (b div 10 mod 10)
           # digit_char (b mod 10) # v
         \<longleftrightarrow> a < b \<or> (a = b \<and> u \<le> v)"
proof -
  have h: "a div 100 < 100" "b div 100 < 100" and l: "a mod 100 < 100" "b mod 100 < 100"
    using assms by simp_all
  have e: "x div 1000 = x div 100 div 10" "x div 10 mod 10 = x mod 100 div 10"
    "x mod 10 = x mod 100 mod 10" for x :: nat
  proof -
    show "x div 1000 = x div 100 div 10" by (simp add: div_mult2_eq)
    show "x mod 10 = x mod 100 mod 10" by (simp add: mod_mod_cancel)
    have "x mod 100 = x mod (10 * 10)" by simp
    also have "\<dots> = 10 * (x div 10 mod 10) + x mod 10" by (rule mod_mult2_eq)
    finally show "x div 10 mod 10 = x mod 100 div 10" by simp
  qed
  have ab: "a = 100 * (a div 100) + a mod 100" "b = 100 * (b div 100) + b mod 100"
    by simp_all
  have lt: "a < b \<longleftrightarrow> a div 100 < b div 100
              \<or> (a div 100 = b div 100 \<and> a mod 100 < b mod 100)"
    using l by (subst ab(1), subst ab(2)) linarith
  have eq: "a = b \<longleftrightarrow> a div 100 = b div 100 \<and> a mod 100 = b mod 100"
    by (metis ab)
  have "digit_char (a div 1000) # digit_char (a div 100 mod 10) # digit_char (a div 10 mod 10)
           # digit_char (a mod 10) # u
         \<le> digit_char (b div 1000) # digit_char (b div 100 mod 10) # digit_char (b div 10 mod 10)
           # digit_char (b mod 10) # v
        \<longleftrightarrow> a div 100 < b div 100
            \<or> (a div 100 = b div 100
                \<and> (a mod 100 < b mod 100 \<or> (a mod 100 = b mod 100 \<and> u \<le> v)))"
    by (simp only: e[of a] e[of b] two_digit_le[OF h] two_digit_le[OF l])
  also have "\<dots> \<longleftrightarrow> a < b \<or> (a = b \<and> u \<le> v)"
    unfolding lt eq by blast
  finally show ?thesis .
qed

lemma same_head_le: "(c :: char) # u \<le> c # v \<longleftrightarrow> u \<le> v"
  by simp

text \<open>On zero-padded dates the text order of the stored strings, which the queries use,
  is the calendar order.\<close>

lemma iso_date_order:
  assumes "y1 < 10000" "y2 < 10000" "m1 < 100" "m2 < 100" "d1 < 100" "d2 < 100"
  shows "iso_date y1 m1 d1 \<le> iso_date y2 m2 d2 \<longleftrightarrow> (y1, m1, d1) \<le> (y2, m2, d2)"
proof -
  have shape: "iso_date y m d =
      digit_char (y div 1000) # digit_char (y div 100 mod 10) # digit_char (y div 10 mod 10)
      # digit_char (y mod 10)
      # (CHR ''-'' # (digit_char (m div 10) # digit_char (m mod 10)
      # (CHR ''-'' # (digit_char (d div 10) # digit_char (d mod 10) # []))))" for y m d
    by (simp add: iso_date_def year_month_key_def)
  have "iso_date y1 m1 d1 \<le> iso_date y2 m2 d2
        \<longleftrightarrow> y1 < y2 \<or> (y1 = y2 \<and> (m1 < m2 \<or> (m1 = m2 \<and> (d1 < d2 \<or> (d1 = d2 \<and> ([] :: string) \<le> [])))))"
    by (simp only: shape four_digit_le[OF assms(1,2)] same_head_le
          two_digit_le[OF assms(3,4)] two_digit_le[OF assms(5,6)])
  also have "\<dots> \<longleftrightarrow> (y1, m1, d1) \<le> (y2, m2, d2)"
    by auto
  finally show ?thesis .
qed

end
